theory Spec2Isabelle
  imports Complex_Main "HOL-Library.Multiset"
begin

section \<open>Hospitals of the JUNE simulation (june/groups/hospital.py)\<close>

text \<open>
  A shallow embedding of \<^verbatim>\<open>src/june/groups/hospital.py\<close>: the class \<^verbatim>\<open>Hospital\<close>
  (capacity numbers and three occupancy subgroups) and the class \<^verbatim>\<open>Hospitals\<close> (the
  collection with its nearest-hospital queries). Python integers are \<open>int\<close>, Python
  floats are idealised as \<open>real\<close>, an attribute that may be \<^verbatim>\<open>None\<close> is an
  \<open>option\<close>, and every exception the code can raise is a value of \<open>py_error\<close>.
\<close>

subsection \<open>Errors\<close>

datatype py_error = AssertionError | AttributeError | IndexError | TypeError | ValueError

subsection \<open>Persons and their severity classification\<close>

text \<open>
  Modelled from the spec: the enumeration \<^verbatim>\<open>SymptomTag\<close> (imported from
  \<^verbatim>\<open>june.infection\<close>, its declaration is not among the sources). The members
  \<open>asymptomatic\<close> to \<open>dead_icu\<close> are the names 0 to 7 of
  \<^verbatim>\<open>index_to_maximum_symptoms_tag\<close> in \<^verbatim>\<open>health_index.py\<close>; the three states
  before them are the enumeration's states of a person without symptoms. The spec's
  "needs ICU" is \<open>intensive_care\<close>, its "needs hospitalization, not critical" is
  \<open>hospitalised\<close>.
\<close>

datatype SymptomTag =
    recovered | healthy | exposed
  | asymptomatic | mild | severe | hospitalised | intensive_care
  | dead_home | dead_hospital | dead_icu

text \<open>
  Modelled from the spec: a person (the class is not among the sources) as far as
  \<^verbatim>\<open>hospital.py\<close> reads and writes it: \<^verbatim>\<open>person.infection.tag\<close> is the severity
  classification, and \<^verbatim>\<open>person.subgroups\<close> has one slot per activity name, which
  holds the subgroup the person joined for that activity (here: the subgroup's type
  in the hospital that admitted the person). A subgroup refers to a person by
  \<open>person_id\<close>.
\<close>

record Infection =
  tag :: SymptomTag

record Person =
  person_id :: nat
  infection :: Infection
  activity_slots :: "string \<rightharpoonup> int"

subsection \<open>Subgroups and the group operations a hospital inherits\<close>

text \<open>
  \<^verbatim>\<open>class SubgroupType(IntEnum): workers = 0; patients = 1; icu_patients = 2\<close>.
  An \<^verbatim>\<open>IntEnum\<close> member is an integer, and Python accepts any integer where the
  code expects a member, so the type is \<open>int\<close>.
\<close>

type_synonym SubgroupType = int

definition SubgroupType_workers :: SubgroupType where
  "SubgroupType_workers = 0"

definition SubgroupType_patients :: SubgroupType where
  "SubgroupType_patients = 1"

definition SubgroupType_icu_patients :: SubgroupType where
  "SubgroupType_icu_patients = 2"

record Subgroup =
  people :: "nat list"

definition subgroup_size :: "Subgroup \<Rightarrow> nat" where
  "subgroup_size s = length (people s)"

definition subgroup_append :: "Subgroup \<Rightarrow> Person \<Rightarrow> Subgroup" where
  "subgroup_append s person = s\<lparr>people := people s @ [person_id person]\<rparr>"

record Hospital =
  subgroups :: "Subgroup list"
  area :: "string option"
  coordinates :: "(real \<times> real) option"
  n_beds :: int
  n_icu_beds :: int
  trust_code :: "string option"

text \<open>
  Modelled from the spec: the base class \<^verbatim>\<open>Group\<close> (not among the sources).
  \<^verbatim>\<open>Group.__init__\<close> creates one empty subgroup per member of \<^verbatim>\<open>SubgroupType\<close>;
  \<^verbatim>\<open>self[item]\<close> is \<^verbatim>\<open>self.subgroups[item]\<close>, a Python list access (a negative
  index counts from the end, an index out of range raises \<^verbatim>\<open>IndexError\<close>);
  \<^verbatim>\<open>Group.add(person, activity, subgroup_type)\<close> inserts the person into the
  named subgroup and records that subgroup in the person's slot for the activity.
  The identity \<^verbatim>\<open>Group.__init__\<close> assigns is read by nothing in \<^verbatim>\<open>hospital.py\<close>
  and is left out.
\<close>

definition Group_init_subgroups :: "Subgroup list" where
  "Group_init_subgroups = replicate 3 \<lparr>people = []\<rparr>"

definition list_index :: "'a list \<Rightarrow> int \<Rightarrow> nat option" where
  "list_index xs item =
     (if 0 \<le> item \<and> item < int (length xs) then Some (nat item)
      else if item < 0 \<and> - int (length xs) \<le> item then Some (nat (int (length xs) + item))
      else None)"

definition Group_getitem :: "Hospital \<Rightarrow> int \<Rightarrow> py_error + Subgroup" where
  "Group_getitem h item =
     (case list_index (subgroups h) item of
        None \<Rightarrow> Inl IndexError
      | Some j \<Rightarrow> Inr (subgroups h ! j))"

definition Group_add ::
  "Hospital \<Rightarrow> Person \<Rightarrow> string \<Rightarrow> SubgroupType \<Rightarrow> py_error option \<times> Hospital \<times> Person" where
  "Group_add h person activity subgroup_type =
     (case list_index (subgroups h) subgroup_type of
        None \<Rightarrow> (Some IndexError, h, person)
      | Some j \<Rightarrow>
          (None,
           h\<lparr>subgroups := (subgroups h)[j := subgroup_append (subgroups h ! j) person]\<rparr>,
           person\<lparr>activity_slots := (activity_slots person)(activity \<mapsto> subgroup_type)\<rparr>))"

subsection \<open>The class Hospital\<close>

text \<open>
  \<^verbatim>\<open>Hospital.__init__(n_beds, n_icu_beds, area=None, coordinates=None, trust_code=None)\<close>
  stores its arguments as they are; it checks none of them.
\<close>

definition Hospital_init ::
  "int \<Rightarrow> int \<Rightarrow> string option \<Rightarrow> (real \<times> real) option \<Rightarrow> string option \<Rightarrow> Hospital" where
  "Hospital_init n_beds' n_icu_beds' area' coordinates' trust_code' =
     \<lparr>subgroups = Group_init_subgroups,
      area = area',
      coordinates = coordinates',
      n_beds = n_beds',
      n_icu_beds = n_icu_beds',
      trust_code = trust_code'\<rparr>"

text \<open>The properties \<^verbatim>\<open>full\<close> and \<^verbatim>\<open>full_ICU\<close>.\<close>

definition full :: "Hospital \<Rightarrow> py_error + bool" where
  "full h =
     (case Group_getitem h SubgroupType_patients of
        Inl e \<Rightarrow> Inl e
      | Inr s \<Rightarrow> Inr (n_beds h \<le> int (subgroup_size s)))"

definition full_ICU :: "Hospital \<Rightarrow> py_error + bool" where
  "full_ICU h =
     (case Group_getitem h SubgroupType_icu_patients of
        Inl e \<Rightarrow> Inl e
      | Inr s \<Rightarrow> Inr (n_icu_beds h \<le> int (subgroup_size s)))"

text \<open>
  \<^verbatim>\<open>Hospital.add(person, subgroup_type=SubgroupType.workers)\<close>. The test
  \<^verbatim>\<open>subgroup_type in [patients, icu_patients]\<close> compares with \<open>==\<close>.
\<close>

definition add ::
  "Hospital \<Rightarrow> Person \<Rightarrow> SubgroupType \<Rightarrow> py_error option \<times> Hospital \<times> Person" where
  "add h person subgroup_type =
     (if subgroup_type \<in> set [SubgroupType_patients, SubgroupType_icu_patients]
      then Group_add h person ''medical_facility'' subgroup_type
      else Group_add h person ''primary_activity'' SubgroupType_workers)"

text \<open>The properties \<^verbatim>\<open>icu_patients\<close> and \<^verbatim>\<open>patients\<close>: \<^verbatim>\<open>self.subgroups[...]\<close>.\<close>

definition icu_patients :: "Hospital \<Rightarrow> py_error + Subgroup" where
  "icu_patients h = Group_getitem h SubgroupType_icu_patients"

definition patients :: "Hospital \<Rightarrow> py_error + Subgroup" where
  "patients h = Group_getitem h SubgroupType_patients"

text \<open>
  \<^verbatim>\<open>Hospital.add_as_patient(person)\<close>. The result is the exception raised (if any)
  with the hospital and the person as the call leaves them.
\<close>

definition add_as_patient ::
  "Hospital \<Rightarrow> Person \<Rightarrow> py_error option \<times> Hospital \<times> Person" where
  "add_as_patient h person =
     (if tag (infection person) = intensive_care
      then add h person SubgroupType_icu_patients
      else if tag (infection person) = hospitalised
      then add h person SubgroupType_patients
      else (Some AssertionError, h, person))"

subsection \<open>The spatial index\<close>

text \<open>\<^verbatim>\<open>np.deg2rad\<close> on a (latitude, longitude) pair.\<close>

definition deg2rad :: "real \<times> real \<Rightarrow> real \<times> real" where
  "deg2rad c = (fst c * pi / 180, snd c * pi / 180)"

text \<open>
  Modelled from the spec: \<^verbatim>\<open>sklearn.neighbors.BallTree\<close> with
  \<^verbatim>\<open>metric="haversine"\<close> (section 4.2, the Geo-Index; a library, not among the
  sources). The tree keeps the points it was built from, in their order.
  \<^verbatim>\<open>query(x, k, sort_results=True)\<close> returns the distances and the positions of the
  \<open>k\<close> points nearest to \<open>x\<close> in great-circle distance, sorted ascending by distance,
  ties in position order; it refuses a \<open>k\<close> larger than the number of points. For
  \<open>k = 0\<close> the result is empty; a negative \<open>k\<close> is refused (no result array has a
  negative length).
\<close>

record BallTree =
  data :: "(real \<times> real) list"

definition haversine :: "real \<times> real \<Rightarrow> real \<times> real \<Rightarrow> real" where
  "haversine x1 x2 =
     2 * arcsin (sqrt ((sin ((fst x1 - fst x2) / 2))\<^sup>2
                       + cos (fst x1) * cos (fst x2) * (sin ((snd x1 - snd x2) / 2))\<^sup>2))"

definition BallTree_init :: "(real \<times> real) list \<Rightarrow> BallTree" where
  "BallTree_init points = \<lparr>data = points\<rparr>"

definition query :: "BallTree \<Rightarrow> real \<times> real \<Rightarrow> int \<Rightarrow> py_error + (real list \<times> nat list)" where
  "query t x k =
     (if int (length (data t)) < k \<or> k < 0 then Inl ValueError
      else
        let neighbours =
              take (nat k) (sort_key (\<lambda>i. haversine x (data t ! i)) [0..<length (data t)])
        in Inr (map (\<lambda>i. haversine x (data t ! i)) neighbours, neighbours))"

subsection \<open>The class Hospitals\<close>

record Hospitals =
  members :: "Hospital list"
  box_mode :: bool
  neighbour_hospitals :: "int option"
  hospital_trees :: "BallTree option"

text \<open>
  \<^verbatim>\<open>init_trees(hospital_coordinates)\<close> sets \<^verbatim>\<open>self.hospital_trees\<close>. Before it has
  run the attribute does not exist (\<open>None\<close> in the record), and reading it raises
  \<^verbatim>\<open>AttributeError\<close>.
\<close>

definition init_trees :: "Hospitals \<Rightarrow> (real \<times> real) list \<Rightarrow> Hospitals" where
  "init_trees c hospital_coordinates =
     c\<lparr>hospital_trees := Some (BallTree_init (map deg2rad hospital_coordinates))\<rparr>"

text \<open>
  \<^verbatim>\<open>Hospitals.__init__(hospitals, neighbour_hospitals=5, box_mode=False, ball_tree=True)\<close>.
  \<^verbatim>\<open>Supergroup.__init__\<close> keeps the list as \<^verbatim>\<open>self.members\<close>. The tree is built
  when \<^verbatim>\<open>ball_tree\<close> is set and the list is not empty; \<^verbatim>\<open>np.deg2rad\<close> of an array
  that holds a \<^verbatim>\<open>None\<close> coordinate raises \<^verbatim>\<open>TypeError\<close>.
\<close>

definition Hospitals_init ::
  "Hospital list \<Rightarrow> int option \<Rightarrow> bool \<Rightarrow> bool \<Rightarrow> py_error + Hospitals" where
  "Hospitals_init hospitals neighbour_hospitals' box_mode' ball_tree =
     (let c = \<lparr>members = hospitals,
               box_mode = box_mode',
               neighbour_hospitals = neighbour_hospitals',
               hospital_trees = None\<rparr>
      in if ball_tree \<and> members c \<noteq> []
         then (case those (map coordinates hospitals) of
                 None \<Rightarrow> Inl TypeError
               | Some coordinates' \<Rightarrow> Inr (init_trees c coordinates'))
         else Inr c)"

text \<open>\<^verbatim>\<open>Hospitals.for_box_mode()\<close>.\<close>

definition for_box_mode :: "py_error + Hospitals" where
  "for_box_mode =
     Hospitals_init
       [Hospital_init 10 2 None None None, Hospital_init 5000 5000 None None None]
       None True False"

text \<open>
  A row of the hospital data frame, and the two functions that build hospitals from
  rows: \<^verbatim>\<open>create_hospital_from_df_row(area, row)\<close> and \<^verbatim>\<open>init_hospitals(hospital_df)\<close>.
\<close>

record Row =
  latitude :: real
  longitude :: real
  beds :: int
  icu_beds :: int
  code :: string

definition create_hospital_from_df_row :: "string \<Rightarrow> Row \<Rightarrow> Hospital" where
  "create_hospital_from_df_row area' row =
     Hospital_init (beds row) (icu_beds row) (Some area')
       (Some (latitude row, longitude row)) (Some (code row))"

definition init_hospitals :: "Row list \<Rightarrow> Hospital list" where
  "init_hospitals hospital_df =
     map (\<lambda>row. Hospital_init (beds row) (icu_beds row) None
                  (Some (latitude row, longitude row)) (Some (code row)))
       hospital_df"

text \<open>
  \<^verbatim>\<open>get_closest_hospitals_idx(coordinates, k)\<close> and
  \<^verbatim>\<open>get_closest_hospitals(coordinates, k)\<close>. Each clamps \<open>k\<close> to the number of
  points of the tree and queries it; the second reads \<^verbatim>\<open>self.members[index]\<close> for
  every position returned.
\<close>

definition get_closest_hospitals_idx ::
  "Hospitals \<Rightarrow> real \<times> real \<Rightarrow> int \<Rightarrow> py_error + nat list" where
  "get_closest_hospitals_idx c coordinates' k =
     (case hospital_trees c of
        None \<Rightarrow> Inl AttributeError
      | Some t \<Rightarrow>
          (let k' = min k (int (length (data t)))
           in case query t (deg2rad coordinates') k' of
                Inl e \<Rightarrow> Inl e
              | Inr (distances, neighbours) \<Rightarrow> Inr neighbours))"

definition get_closest_hospitals ::
  "Hospitals \<Rightarrow> real \<times> real \<Rightarrow> int \<Rightarrow> py_error + Hospital list" where
  "get_closest_hospitals c coordinates' k =
     (case hospital_trees c of
        None \<Rightarrow> Inl AttributeError
      | Some t \<Rightarrow>
          (let k' = min k (int (length (data t)))
           in case query t (deg2rad coordinates') k' of
                Inl e \<Rightarrow> Inl e
              | Inr (distances, neighbours) \<Rightarrow>
                  if list_all (\<lambda>index. index < length (members c)) neighbours
                  then Inr (map (\<lambda>index. members c ! index) neighbours)
                  else Inl IndexError))"

text \<open>
  The great-circle distance from a query point (in degrees) to a hospital, as the tree
  measures it: both points converted to radians. A hospital without coordinates has
  none.
\<close>

definition great_circle_distance :: "real \<times> real \<Rightarrow> Hospital \<Rightarrow> real option" where
  "great_circle_distance p h =
     map_option (\<lambda>x. haversine (deg2rad p) (deg2rad x)) (coordinates h)"

text \<open>The positions \<^verbatim>\<open>query\<close> returns, as a function of the clamped \<open>k\<close>.\<close>

definition nearest :: "BallTree \<Rightarrow> real \<times> real \<Rightarrow> nat \<Rightarrow> nat list" where
  "nearest t x n = take n (sort_key (\<lambda>i. haversine x (data t ! i)) [0..<length (data t)])"

subsection \<open>The admission policy\<close>

text \<open>
  Modelled from the spec: the admission policy of section 4.3, which the docstring of
  \<^verbatim>\<open>Hospitals.__init__\<close> describes and whose code is not among the sources. The
  \<^verbatim>\<open>neighbour_hospitals\<close> nearest hospitals are considered in ascending distance;
  the person is admitted into the first whose relevant threshold (\<open>full_ICU\<close> for a
  person classified \<open>intensive_care\<close>, \<open>full\<close> otherwise) is not reached; when every
  candidate has reached it, one candidate is picked at random and the person is
  admitted there. The random choice is the argument \<open>draw\<close>: the position among the
  candidates that the random generator picked (uniform over the positions, so that
  over distinct candidates every candidate is as likely as every other). Hospitals
  are named by their position in the member list; the result is the position chosen,
  the collection with that member updated, and the person.
\<close>

definition threshold_reached :: "Person \<Rightarrow> Hospital \<Rightarrow> py_error + bool" where
  "threshold_reached person h =
     (if tag (infection person) = intensive_care then full_ICU h else full h)"

definition choose_hospital :: "Hospital list \<Rightarrow> Person \<Rightarrow> nat list \<Rightarrow> nat \<Rightarrow> py_error + nat" where
  "choose_hospital hospitals person candidates draw =
     (case find (\<lambda>i. threshold_reached person (hospitals ! i) = Inr False) candidates of
        Some i \<Rightarrow> Inr i
      | None \<Rightarrow> if draw < length candidates then Inr (candidates ! draw) else Inl IndexError)"

definition admit ::
  "Hospitals \<Rightarrow> Person \<Rightarrow> real \<times> real \<Rightarrow> nat \<Rightarrow> py_error + (nat \<times> Hospitals \<times> Person)" where
  "admit c person location draw =
     (case neighbour_hospitals c of
        None \<Rightarrow> Inl TypeError
      | Some k \<Rightarrow>
          (case get_closest_hospitals_idx c location k of
             Inl e \<Rightarrow> Inl e
           | Inr candidates \<Rightarrow>
               (case choose_hospital (members c) person candidates draw of
                  Inl e \<Rightarrow> Inl e
                | Inr i \<Rightarrow>
                    (case add_as_patient (members c ! i) person of
                       (Some e, h', person') \<Rightarrow> Inl e
                     | (None, h', person') \<Rightarrow>
                         Inr (i, c\<lparr>members := (members c)[i := h']\<rparr>, person')))))"

subsection \<open>Occupancy states a hospital can reach\<close>

text \<open>
  Nothing in the code removes a person from a subgroup, so the occupancy states a
  hospital can reach are those a constructed hospital is in after a sequence of
  \<^verbatim>\<open>add\<close> calls.
\<close>

fun admissions :: "Hospital \<Rightarrow> (Person \<times> SubgroupType) list \<Rightarrow> Hospital" where
  "admissions h [] = h"
| "admissions h ((person, subgroup_type) # rest) =
     admissions (fst (snd (add h person subgroup_type))) rest"

text \<open>The persons a run of admissions puts into one subgroup.\<close>

definition admitted_to :: "SubgroupType \<Rightarrow> (Person \<times> SubgroupType) list \<Rightarrow> nat list" where
  "admitted_to subgroup_type ops =
     map (\<lambda>op. person_id (fst op)) (filter (\<lambda>op. snd op = subgroup_type) ops)"

section \<open>Properties\<close>

subsection \<open>The subgroups of a hospital\<close>

lemma list_index_3:
  "length xs = 3 \<Longrightarrow> list_index xs 0 = Some 0 \<and> list_index xs 1 = Some 1 \<and> list_index xs 2 = Some 2"
  by (simp add: list_index_def)

lemma Group_getitem_3:
  assumes "length (subgroups h) = 3"
  shows "Group_getitem h 0 = Inr (subgroups h ! 0)"
    and "Group_getitem h 1 = Inr (subgroups h ! 1)"
    and "Group_getitem h 2 = Inr (subgroups h ! 2)"
  using assms by (simp_all add: Group_getitem_def list_index_3)

lemma Group_add_3:
  assumes "length (subgroups h) = 3" and "j \<in> {0, 1, 2}"
  shows "Group_add h person activity j =
     (None,
      h\<lparr>subgroups := (subgroups h)[nat j := subgroup_append (subgroups h ! nat j) person]\<rparr>,
      person\<lparr>activity_slots := (activity_slots person)(activity \<mapsto> j)\<rparr>)"
  using assms by (auto simp add: Group_add_def list_index_3)

lemma add_patients:
  assumes "length (subgroups h) = 3"
  shows "add h person SubgroupType_patients =
     (None,
      h\<lparr>subgroups := (subgroups h)[1 := subgroup_append (subgroups h ! 1) person]\<rparr>,
      person\<lparr>activity_slots := (activity_slots person)(''medical_facility'' \<mapsto> 1)\<rparr>)"
  using Group_add_3 [OF assms, of 1] by (simp add: add_def SubgroupType_patients_def)

lemma add_icu_patients:
  assumes "length (subgroups h) = 3"
  shows "add h person SubgroupType_icu_patients =
     (None,
      h\<lparr>subgroups := (subgroups h)[2 := subgroup_append (subgroups h ! 2) person]\<rparr>,
      person\<lparr>activity_slots := (activity_slots person)(''medical_facility'' \<mapsto> 2)\<rparr>)"
  using Group_add_3 [OF assms, of 2]
  by (simp add: add_def SubgroupType_patients_def SubgroupType_icu_patients_def)

lemma add_other:
  assumes "length (subgroups h) = 3"
    and "subgroup_type \<noteq> SubgroupType_patients" and "subgroup_type \<noteq> SubgroupType_icu_patients"
  shows "add h person subgroup_type =
     (None,
      h\<lparr>subgroups := (subgroups h)[0 := subgroup_append (subgroups h ! 0) person]\<rparr>,
      person\<lparr>activity_slots := (activity_slots person)(''primary_activity'' \<mapsto> 0)\<rparr>)"
  using Group_add_3 [OF assms(1), of 0] assms(2,3)
  by (simp add: add_def SubgroupType_workers_def)

lemma add_length_subgroups:
  "length (subgroups (fst (snd (add h person subgroup_type)))) = length (subgroups h)"
  by (simp add: add_def Group_add_def split: option.splits)

lemma Hospital_init_subgroups:
  "length (subgroups (Hospital_init b i a c t)) = 3"
  by (simp add: Hospital_init_def Group_init_subgroups_def)

lemma admissions_length_subgroups:
  "length (subgroups (admissions h ops)) = length (subgroups h)"
  by (induction h ops rule: admissions.induct) (simp_all add: add_length_subgroups)

lemma add_capacities:
  "n_beds (fst (snd (add h person subgroup_type))) = n_beds h"
  "n_icu_beds (fst (snd (add h person subgroup_type))) = n_icu_beds h"
  by (simp_all add: add_def Group_add_def split: option.splits)

lemma admissions_capacities:
  "n_beds (admissions h ops) = n_beds h \<and> n_icu_beds (admissions h ops) = n_icu_beds h"
  by (induction h ops rule: admissions.induct) (simp_all add: add_capacities)

lemma add_people:
  assumes "length (subgroups h) = 3" and "j < 3"
  shows "people (subgroups (fst (snd (add h person subgroup_type))) ! j) =
           people (subgroups h ! j) @
             (if int j = (if subgroup_type = SubgroupType_patients
                             \<or> subgroup_type = SubgroupType_icu_patients
                          then subgroup_type else SubgroupType_workers)
              then [person_id person] else [])"
proof -
  consider (p) "subgroup_type = SubgroupType_patients"
    | (i) "subgroup_type = SubgroupType_icu_patients"
    | (w) "subgroup_type \<noteq> SubgroupType_patients" "subgroup_type \<noteq> SubgroupType_icu_patients"
    by blast
  then show ?thesis
  proof cases
    case p
    then show ?thesis
      using assms
      by (simp add: add_patients)
        (auto simp add: SubgroupType_patients_def subgroup_append_def nth_list_update)
  next
    case i
    then show ?thesis
      using assms
      by (simp add: add_icu_patients)
        (auto simp add: SubgroupType_icu_patients_def SubgroupType_patients_def
          subgroup_append_def nth_list_update)
  next
    case w
    then show ?thesis
      using assms
      by (simp add: add_other)
        (auto simp add: SubgroupType_workers_def subgroup_append_def nth_list_update)
  qed
qed

lemma admissions_patients:
  assumes "length (subgroups h) = 3"
  shows "people (subgroups (admissions h ops) ! 1) =
           people (subgroups h ! 1) @ admitted_to SubgroupType_patients ops"
  using assms
proof (induction h ops rule: admissions.induct)
  case (1 h)
  then show ?case by (simp add: admitted_to_def)
next
  case (2 h person subgroup_type rest)
  have len: "length (subgroups (fst (snd (add h person subgroup_type)))) = 3"
    using "2.prems" by (simp add: add_length_subgroups)
  show ?case
    using "2.IH" [OF len] add_people [OF "2.prems", of 1 person subgroup_type]
    by (auto simp add: admitted_to_def SubgroupType_patients_def SubgroupType_icu_patients_def
        SubgroupType_workers_def)
qed

lemma admissions_icu_patients:
  assumes "length (subgroups h) = 3"
  shows "people (subgroups (admissions h ops) ! 2) =
           people (subgroups h ! 2) @ admitted_to SubgroupType_icu_patients ops"
  using assms
proof (induction h ops rule: admissions.induct)
  case (1 h)
  then show ?case by (simp add: admitted_to_def)
next
  case (2 h person subgroup_type rest)
  have len: "length (subgroups (fst (snd (add h person subgroup_type)))) = 3"
    using "2.prems" by (simp add: add_length_subgroups)
  show ?case
    using "2.IH" [OF len] add_people [OF "2.prems", of 2 person subgroup_type]
    by (auto simp add: admitted_to_def SubgroupType_patients_def SubgroupType_icu_patients_def
        SubgroupType_workers_def)
qed

subsection \<open>Admission into a hospital\<close>

text \<open>
  C2: \<open>add_as_patient\<close> places a person classified \<open>intensive_care\<close> in the
  \<open>icu_patients\<close> subgroup and a person classified \<open>hospitalised\<close> in the
  \<open>patients\<close> subgroup, leaving the other subgroups as they were; for every other
  classification it fails with \<open>AssertionError\<close> and leaves the hospital (all its
  subgroups) and the person unchanged. A hospital has its three subgroups.
\<close>

theorem add_as_patient_routes:
  assumes "length (subgroups h) = 3"
  shows "(tag (infection person) = intensive_care \<longrightarrow>
            (\<exists>h' person' s. add_as_patient h person = (None, h', person')
               \<and> icu_patients h = Inr s
               \<and> icu_patients h' = Inr (s\<lparr>people := people s @ [person_id person]\<rparr>)
               \<and> patients h' = patients h
               \<and> Group_getitem h' SubgroupType_workers = Group_getitem h SubgroupType_workers))
       \<and> (tag (infection person) = hospitalised \<longrightarrow>
            (\<exists>h' person' s. add_as_patient h person = (None, h', person')
               \<and> patients h = Inr s
               \<and> patients h' = Inr (s\<lparr>people := people s @ [person_id person]\<rparr>)
               \<and> icu_patients h' = icu_patients h
               \<and> Group_getitem h' SubgroupType_workers = Group_getitem h SubgroupType_workers))
       \<and> (tag (infection person) \<noteq> intensive_care \<and> tag (infection person) \<noteq> hospitalised \<longrightarrow>
            add_as_patient h person = (Some AssertionError, h, person))"
proof (intro conjI impI)
  assume icu: "tag (infection person) = intensive_care"
  show "\<exists>h' person' s. add_as_patient h person = (None, h', person')
               \<and> icu_patients h = Inr s
               \<and> icu_patients h' = Inr (s\<lparr>people := people s @ [person_id person]\<rparr>)
               \<and> patients h' = patients h
               \<and> Group_getitem h' SubgroupType_workers = Group_getitem h SubgroupType_workers"
    using assms icu
    by (simp add: add_as_patient_def add_icu_patients)
      (simp add: icu_patients_def patients_def Group_getitem_def list_index_3
        SubgroupType_patients_def SubgroupType_icu_patients_def SubgroupType_workers_def
        subgroup_append_def)
next
  assume ward: "tag (infection person) = hospitalised"
  show "\<exists>h' person' s. add_as_patient h person = (None, h', person')
               \<and> patients h = Inr s
               \<and> patients h' = Inr (s\<lparr>people := people s @ [person_id person]\<rparr>)
               \<and> icu_patients h' = icu_patients h
               \<and> Group_getitem h' SubgroupType_workers = Group_getitem h SubgroupType_workers"
    using assms ward
    by (simp add: add_as_patient_def add_patients)
      (simp add: icu_patients_def patients_def Group_getitem_def list_index_3
        SubgroupType_patients_def SubgroupType_icu_patients_def SubgroupType_workers_def
        subgroup_append_def)
next
  assume "tag (infection person) \<noteq> intensive_care \<and> tag (infection person) \<noteq> hospitalised"
  then show "add_as_patient h person = (Some AssertionError, h, person)"
    by (simp add: add_as_patient_def)
qed

theorem add_as_patient_routes_witness:
  "length (subgroups (Hospital_init 1 1 None None None)) = 3
   \<and> (\<exists>h' person'.
         add_as_patient (Hospital_init 1 1 None None None)
           \<lparr>person_id = 7, infection = \<lparr>tag = intensive_care\<rparr>, activity_slots = Map.empty\<rparr>
           = (None, h', person')
         \<and> icu_patients h' = Inr \<lparr>people = [7]\<rparr>
         \<and> patients h' = Inr \<lparr>people = []\<rparr>)
   \<and> (\<exists>h' person'.
         add_as_patient (Hospital_init 1 1 None None None)
           \<lparr>person_id = 8, infection = \<lparr>tag = hospitalised\<rparr>, activity_slots = Map.empty\<rparr>
           = (None, h', person')
         \<and> patients h' = Inr \<lparr>people = [8]\<rparr>
         \<and> icu_patients h' = Inr \<lparr>people = []\<rparr>)
   \<and> add_as_patient (Hospital_init 1 1 None None None)
         \<lparr>person_id = 9, infection = \<lparr>tag = mild\<rparr>, activity_slots = Map.empty\<rparr>
       = (Some AssertionError, Hospital_init 1 1 None None None,
          \<lparr>person_id = 9, infection = \<lparr>tag = mild\<rparr>, activity_slots = Map.empty\<rparr>)"
proof -
  let ?h = "Hospital_init 1 1 None None None"
  have len: "length (subgroups ?h) = 3"
    by (rule Hospital_init_subgroups)
  have get: "icu_patients ?h = Inr \<lparr>people = []\<rparr>" "patients ?h = Inr \<lparr>people = []\<rparr>"
    by (simp_all add: icu_patients_def patients_def Group_getitem_def list_index_def
        Hospital_init_def Group_init_subgroups_def SubgroupType_icu_patients_def
        SubgroupType_patients_def numeral_3_eq_3)
  show ?thesis
    using len get
      add_as_patient_routes [OF len,
        of "\<lparr>person_id = 7, infection = \<lparr>tag = intensive_care\<rparr>, activity_slots = Map.empty\<rparr>"]
      add_as_patient_routes [OF len,
        of "\<lparr>person_id = 8, infection = \<lparr>tag = hospitalised\<rparr>, activity_slots = Map.empty\<rparr>"]
      add_as_patient_routes [OF len,
        of "\<lparr>person_id = 9, infection = \<lparr>tag = mild\<rparr>, activity_slots = Map.empty\<rparr>"]
    by auto
qed

text \<open>
  C7: \<open>add\<close> into the \<open>patients\<close> or the \<open>icu_patients\<close> subgroup succeeds
  and makes that subgroup one person larger, whatever \<open>full\<close> and \<open>full_ICU\<close>
  say: nothing in \<open>add\<close> reads them.
\<close>

theorem add_to_full_hospital:
  assumes "length (subgroups h) = 3"
    and "subgroup_type = SubgroupType_patients \<or> subgroup_type = SubgroupType_icu_patients"
  shows "\<exists>h' person' s s'. add h person subgroup_type = (None, h', person')
           \<and> Group_getitem h subgroup_type = Inr s
           \<and> Group_getitem h' subgroup_type = Inr s'
           \<and> people s' = people s @ [person_id person]
           \<and> subgroup_size s' = subgroup_size s + 1"
  using assms(2)
proof
  assume "subgroup_type = SubgroupType_patients"
  then show ?thesis
    using assms(1)
    by (simp add: add_patients)
      (simp add: Group_getitem_def list_index_3 SubgroupType_patients_def
        subgroup_append_def subgroup_size_def)
next
  assume "subgroup_type = SubgroupType_icu_patients"
  then show ?thesis
    using assms(1)
    by (simp add: add_icu_patients)
      (simp add: Group_getitem_def list_index_3 SubgroupType_icu_patients_def
        subgroup_append_def subgroup_size_def)
qed

theorem add_to_full_hospital_witness:
  "full (Hospital_init 0 0 None None None) = Inr True
   \<and> full_ICU (Hospital_init 0 0 None None None) = Inr True
   \<and> (\<exists>h' person' s'.
        add (Hospital_init 0 0 None None None)
          \<lparr>person_id = 7, infection = \<lparr>tag = hospitalised\<rparr>, activity_slots = Map.empty\<rparr>
          SubgroupType_patients = (None, h', person')
        \<and> Group_getitem h' SubgroupType_patients = Inr s'
        \<and> people s' = [7] \<and> subgroup_size s' = 1)
   \<and> (\<exists>h' person' s'.
        add (Hospital_init 0 0 None None None)
          \<lparr>person_id = 7, infection = \<lparr>tag = intensive_care\<rparr>, activity_slots = Map.empty\<rparr>
          SubgroupType_icu_patients = (None, h', person')
        \<and> Group_getitem h' SubgroupType_icu_patients = Inr s'
        \<and> people s' = [7] \<and> subgroup_size s' = 1)"
proof -
  let ?h = "Hospital_init 0 0 None None None"
  have len: "length (subgroups ?h) = 3"
    by (rule Hospital_init_subgroups)
  have get: "Group_getitem ?h SubgroupType_patients = Inr \<lparr>people = []\<rparr>"
    "Group_getitem ?h SubgroupType_icu_patients = Inr \<lparr>people = []\<rparr>"
    by (simp_all add: Group_getitem_def list_index_def
        Hospital_init_def Group_init_subgroups_def SubgroupType_icu_patients_def
        SubgroupType_patients_def numeral_3_eq_3)
  have f: "full ?h = Inr True" "full_ICU ?h = Inr True"
    using get by (simp_all add: full_def full_ICU_def subgroup_size_def Hospital_init_def)
  show ?thesis
    using f get
      add_to_full_hospital [OF len, of SubgroupType_patients
        "\<lparr>person_id = 7, infection = \<lparr>tag = hospitalised\<rparr>, activity_slots = Map.empty\<rparr>"]
      add_to_full_hospital [OF len, of SubgroupType_icu_patients
        "\<lparr>person_id = 7, infection = \<lparr>tag = intensive_care\<rparr>, activity_slots = Map.empty\<rparr>"]
    by (auto simp add: subgroup_size_def)
qed

text \<open>
  C10: for every subgroup tag that is neither \<open>patients\<close> nor \<open>icu_patients\<close>,
  \<open>add\<close> does not fail: it appends the person to the \<open>workers\<close> subgroup, leaves
  the two patient subgroups alone, and records the workers subgroup in the person's
  slot for the activity \<open>primary_activity\<close>.
\<close>

theorem add_unrecognised_is_worker:
  assumes "length (subgroups h) = 3"
    and "subgroup_type \<noteq> SubgroupType_patients"
    and "subgroup_type \<noteq> SubgroupType_icu_patients"
  shows "\<exists>h' person' w. add h person subgroup_type = (None, h', person')
           \<and> Group_getitem h SubgroupType_workers = Inr w
           \<and> Group_getitem h' SubgroupType_workers = Inr (w\<lparr>people := people w @ [person_id person]\<rparr>)
           \<and> patients h' = patients h
           \<and> icu_patients h' = icu_patients h
           \<and> activity_slots person' =
               (activity_slots person)(''primary_activity'' \<mapsto> SubgroupType_workers)"
  using assms
  by (simp add: add_other)
    (simp add: Group_getitem_def list_index_3 SubgroupType_workers_def
      SubgroupType_patients_def SubgroupType_icu_patients_def patients_def icu_patients_def
      subgroup_append_def)

theorem add_unrecognised_is_worker_witness:
  "(\<exists>h' person'.
      add (Hospital_init 1 1 None None None)
        \<lparr>person_id = 7, infection = \<lparr>tag = healthy\<rparr>, activity_slots = Map.empty\<rparr> 5
        = (None, h', person')
      \<and> Group_getitem h' SubgroupType_workers = Inr \<lparr>people = [7]\<rparr>
      \<and> patients h' = Inr \<lparr>people = []\<rparr>
      \<and> icu_patients h' = Inr \<lparr>people = []\<rparr>
      \<and> activity_slots person' = [''primary_activity'' \<mapsto> SubgroupType_workers])
   \<and> (\<exists>h' person'.
      add (Hospital_init 1 1 None None None)
        \<lparr>person_id = 7, infection = \<lparr>tag = healthy\<rparr>, activity_slots = Map.empty\<rparr>
        SubgroupType_workers = (None, h', person')
      \<and> Group_getitem h' SubgroupType_workers = Inr \<lparr>people = [7]\<rparr>)"
proof -
  let ?h = "Hospital_init 1 1 None None None"
  have len: "length (subgroups ?h) = 3"
    by (rule Hospital_init_subgroups)
  have get: "Group_getitem ?h SubgroupType_workers = Inr \<lparr>people = []\<rparr>"
    "patients ?h = Inr \<lparr>people = []\<rparr>" "icu_patients ?h = Inr \<lparr>people = []\<rparr>"
    by (simp_all add: Group_getitem_def list_index_def patients_def icu_patients_def
        Hospital_init_def Group_init_subgroups_def SubgroupType_icu_patients_def
        SubgroupType_patients_def SubgroupType_workers_def numeral_3_eq_3)
  have ne: "(5::int) \<noteq> SubgroupType_patients" "(5::int) \<noteq> SubgroupType_icu_patients"
    "SubgroupType_workers \<noteq> SubgroupType_patients"
    "SubgroupType_workers \<noteq> SubgroupType_icu_patients"
    by (simp_all add: SubgroupType_icu_patients_def SubgroupType_patients_def
        SubgroupType_workers_def)
  show ?thesis
    using get
      add_unrecognised_is_worker [OF len ne(1,2),
        of "\<lparr>person_id = 7, infection = \<lparr>tag = healthy\<rparr>, activity_slots = Map.empty\<rparr>"]
      add_unrecognised_is_worker [OF len ne(3,4),
        of "\<lparr>person_id = 7, infection = \<lparr>tag = healthy\<rparr>, activity_slots = Map.empty\<rparr>"]
    by auto
qed

subsection \<open>The capacity thresholds\<close>

text \<open>
  C3: in every occupancy state a constructed hospital reaches by admissions, \<open>full\<close>
  holds exactly when the \<open>patients\<close> subgroup has at least \<open>n_beds\<close> people and
  \<open>full_ICU\<close> exactly when the \<open>icu_patients\<close> subgroup has at least
  \<open>n_icu_beds\<close>; the subgroups hold exactly the persons admitted to them, and right
  after one more admission the predicate is evaluated on the subgroup grown by one,
  so it flips with the admission that reaches the threshold.
\<close>

theorem full_iff_threshold:
  "let h = admissions (Hospital_init b i a c t) ops in
   \<exists>ps icu. patients h = Inr ps \<and> icu_patients h = Inr icu
     \<and> n_beds h = b \<and> n_icu_beds h = i
     \<and> people ps = admitted_to SubgroupType_patients ops
     \<and> people icu = admitted_to SubgroupType_icu_patients ops
     \<and> full h = Inr (n_beds h \<le> int (length (people ps)))
     \<and> full_ICU h = Inr (n_icu_beds h \<le> int (length (people icu)))
     \<and> full (fst (snd (add h person SubgroupType_patients))) =
         Inr (n_beds h \<le> int (length (people ps)) + 1)
     \<and> full_ICU (fst (snd (add h person SubgroupType_icu_patients))) =
         Inr (n_icu_beds h \<le> int (length (people icu)) + 1)"
proof -
  define h where "h = admissions (Hospital_init b i a c t) ops"
  have len: "length (subgroups h) = 3"
    by (simp add: h_def admissions_length_subgroups Hospital_init_subgroups)
  have cap: "n_beds h = b" "n_icu_beds h = i"
    using admissions_capacities [of "Hospital_init b i a c t" ops]
    by (simp_all add: h_def Hospital_init_def)
  have ps: "people (subgroups h ! 1) = admitted_to SubgroupType_patients ops"
    using admissions_patients [OF Hospital_init_subgroups, of b i a c t ops]
    by (simp add: h_def Hospital_init_def Group_init_subgroups_def)
  have icu: "people (subgroups h ! 2) = admitted_to SubgroupType_icu_patients ops"
    using admissions_icu_patients [OF Hospital_init_subgroups, of b i a c t ops]
    by (simp add: h_def Hospital_init_def Group_init_subgroups_def)
  have get: "patients h = Inr (subgroups h ! 1)" "icu_patients h = Inr (subgroups h ! 2)"
    using Group_getitem_3 [OF len]
    by (simp_all add: patients_def icu_patients_def SubgroupType_patients_def
        SubgroupType_icu_patients_def)
  have f: "full h = Inr (n_beds h \<le> int (length (people (subgroups h ! 1))))"
    "full_ICU h = Inr (n_icu_beds h \<le> int (length (people (subgroups h ! 2))))"
    using Group_getitem_3 [OF len]
    by (simp_all add: full_def full_ICU_def subgroup_size_def SubgroupType_patients_def
        SubgroupType_icu_patients_def)
  let ?hp = "fst (snd (add h person SubgroupType_patients))"
  let ?hi = "fst (snd (add h person SubgroupType_icu_patients))"
  have lenp: "length (subgroups ?hp) = 3" and leni: "length (subgroups ?hi) = 3"
    using len by (simp_all add: add_length_subgroups)
  have fp: "full ?hp = Inr (n_beds h \<le> int (length (people (subgroups h ! 1))) + 1)"
    using Group_getitem_3 [OF lenp] add_people [OF len, of 1 person SubgroupType_patients]
    by (simp add: full_def subgroup_size_def add_capacities SubgroupType_patients_def
        add.commute)
  have fi: "full_ICU ?hi = Inr (n_icu_beds h \<le> int (length (people (subgroups h ! 2))) + 1)"
    using Group_getitem_3 [OF leni] add_people [OF len, of 2 person SubgroupType_icu_patients]
    by (simp add: full_ICU_def subgroup_size_def add_capacities SubgroupType_icu_patients_def
        SubgroupType_patients_def add.commute)
  show ?thesis
    unfolding Let_def h_def [symmetric]
    using cap ps icu get f fp fi by simp
qed

theorem full_iff_threshold_witness:
  "full (admissions (Hospital_init 1 1 None None None) []) = Inr False
   \<and> full (fst (snd (add (admissions (Hospital_init 1 1 None None None) [])
        \<lparr>person_id = 7, infection = \<lparr>tag = hospitalised\<rparr>, activity_slots = Map.empty\<rparr>
        SubgroupType_patients))) = Inr True
   \<and> full_ICU (admissions (Hospital_init 1 1 None None None) []) = Inr False
   \<and> full_ICU (fst (snd (add (admissions (Hospital_init 1 1 None None None) [])
        \<lparr>person_id = 7, infection = \<lparr>tag = hospitalised\<rparr>, activity_slots = Map.empty\<rparr>
        SubgroupType_icu_patients))) = Inr True"
  using full_iff_threshold [of 1 1 None None None "[]"
      "\<lparr>person_id = 7, infection = \<lparr>tag = hospitalised\<rparr>, activity_slots = Map.empty\<rparr>"]
  by (auto simp add: Let_def admitted_to_def)

subsection \<open>Construction of the collection\<close>

lemma Hospitals_init_no_tree:
  "Hospitals_init hs nh bm False =
     Inr \<lparr>members = hs, box_mode = bm, neighbour_hospitals = nh, hospital_trees = None\<rparr>"
  by (simp add: Hospitals_init_def)

text \<open>
  C5: box mode yields exactly two hospitals, the first with 10 regular and 2 ICU beds,
  the second with 5000 and 5000, both without coordinates; the collection has no
  spatial index and \<open>neighbour_hospitals\<close> is unset.
\<close>

theorem for_box_mode_two_hospitals:
  "\<exists>c. for_box_mode = Inr c
     \<and> length (members c) = 2
     \<and> map n_beds (members c) = [10, 5000]
     \<and> map n_icu_beds (members c) = [2, 5000]
     \<and> map coordinates (members c) = [None, None]
     \<and> box_mode c
     \<and> hospital_trees c = None
     \<and> neighbour_hospitals c = None"
  by (simp add: for_box_mode_def Hospitals_init_no_tree Hospital_init_def)

subsection \<open>Capacities at construction\<close>

text \<open>
  C9, as the spec states it: every hospital has \<open>n_beds \<ge> 0\<close> and
  \<open>n_icu_beds \<ge> 0\<close> at construction. The constructor checks nothing, so a hospital
  built with negative numbers keeps them.
\<close>

theorem Hospital_init_negative_beds:
  "\<not> (0 \<le> n_beds (Hospital_init (- 1) (- 1) None None None)
       \<and> 0 \<le> n_icu_beds (Hospital_init (- 1) (- 1) None None None))"
  by (simp add: Hospital_init_def)

text \<open>
  C9, amended: every construction path stores \<open>n_beds\<close> and \<open>n_icu_beds\<close> exactly as
  they are supplied (the constructor's arguments; the \<open>beds\<close> and \<open>icu_beds\<close>
  columns of a data row), so a capacity is non-negative exactly when the supplied
  value is; the two hospitals of box mode have non-negative capacities.
\<close>

theorem construction_stores_capacities:
  "n_beds (Hospital_init b i a c t) = b
   \<and> n_icu_beds (Hospital_init b i a c t) = i
   \<and> n_beds (create_hospital_from_df_row ar row) = beds row
   \<and> n_icu_beds (create_hospital_from_df_row ar row) = icu_beds row
   \<and> map n_beds (init_hospitals hospital_df) = map beds hospital_df
   \<and> map n_icu_beds (init_hospitals hospital_df) = map icu_beds hospital_df
   \<and> (\<exists>c. for_box_mode = Inr c
          \<and> list_all (\<lambda>h. 0 \<le> n_beds h \<and> 0 \<le> n_icu_beds h) (members c))"
  by (simp add: Hospital_init_def create_hospital_from_df_row_def init_hospitals_def
      for_box_mode_def Hospitals_init_no_tree comp_def)

subsection \<open>Nearest-hospital queries\<close>

lemma those_Some_map: "those xs = Some ys \<Longrightarrow> xs = map Some ys"
  by (induction xs arbitrary: ys) (auto split: option.splits)

lemma Hospitals_init_tree:
  assumes "Hospitals_init hs nh bm bt = Inr c" and "hospital_trees c = Some t"
  shows "members c = hs \<and> hs \<noteq> [] \<and> neighbour_hospitals c = nh
         \<and> (\<exists>cs. map coordinates hs = map Some cs \<and> data t = map deg2rad cs)"
proof -
  from assms obtain cs where cs: "those (map coordinates hs) = Some cs"
    and c: "c = \<lparr>members = hs, box_mode = bm, neighbour_hospitals = nh,
                 hospital_trees = Some \<lparr>data = map deg2rad cs\<rparr>\<rparr>"
    and ne: "hs \<noteq> []"
    by (auto simp add: Hospitals_init_def init_trees_def BallTree_init_def Let_def
        split: if_splits option.splits)
  have "map coordinates hs = map Some cs"
    using cs by (rule those_Some_map)
  moreover have "data t = map deg2rad cs"
    using assms(2) c by auto
  ultimately show ?thesis
    using c ne by auto
qed

lemma Hospitals_init_without_tree:
  assumes "\<not> bt \<or> hs = []"
  shows "Hospitals_init hs nh bm bt =
     Inr \<lparr>members = hs, box_mode = bm, neighbour_hospitals = nh, hospital_trees = None\<rparr>"
  using assms by (auto simp add: Hospitals_init_def)

lemma query_clamped:
  assumes "1 \<le> k" and "data t \<noteq> []"
  shows "query t x (min k (int (length (data t)))) =
     Inr (map (\<lambda>i. haversine x (data t ! i)) (nearest t x (min (nat k) (length (data t)))),
          nearest t x (min (nat k) (length (data t))))"
proof -
  have "nat (min k (int (length (data t)))) = min (nat k) (length (data t))"
    by simp
  moreover have "1 \<le> int (length (data t))"
    using assms(2) by (cases "data t") simp_all
  then have "\<not> min k (int (length (data t))) < 0"
    using assms(1) by linarith
  ultimately show ?thesis
    by (simp add: query_def nearest_def Let_def)
qed

lemma query_result:
  assumes "query t x k = Inr (ds, nb)"
  shows "nb = nearest t x (nat k)"
  using assms by (auto simp add: query_def nearest_def Let_def split: if_splits)

lemma nearest_props:
  "length (nearest t x n) = min n (length (data t))"
  "distinct (nearest t x n)"
  "set (nearest t x n) \<subseteq> {..<length (data t)}"
  "sorted (map (\<lambda>i. haversine x (data t ! i)) (nearest t x n))"
proof -
  let ?f = "\<lambda>i. haversine x (data t ! i)"
  show "length (nearest t x n) = min n (length (data t))"
    by (simp add: nearest_def)
  show "distinct (nearest t x n)"
    by (simp add: nearest_def)
  have "set (nearest t x n) \<subseteq> set (sort_key ?f [0..<length (data t)])"
    unfolding nearest_def by (rule set_take_subset)
  then show "set (nearest t x n) \<subseteq> {..<length (data t)}"
    by auto
  have "sorted (take n (map ?f (sort_key ?f [0..<length (data t)])))"
    by (rule sorted_wrt_take) (rule sorted_sort_key)
  then show "sorted (map ?f (nearest t x n))"
    by (simp add: nearest_def take_map)
qed

lemma nearest_all:
  assumes "length (data t) \<le> n" and "length ms = length (data t)"
  shows "mset (map (\<lambda>i. ms ! i) (nearest t x n)) = mset ms"
proof -
  let ?f = "\<lambda>i. haversine x (data t ! i)"
  have "nearest t x n = sort_key ?f [0..<length ms]"
    using assms by (simp add: nearest_def)
  then have "mset (map (\<lambda>i. ms ! i) (nearest t x n)) = mset (map (\<lambda>i. ms ! i) [0..<length ms])"
    by simp
  then show ?thesis
    by (simp add: map_nth)
qed

lemma get_closest_hospitals_idx_clamped:
  assumes "hospital_trees c = Some t" and "1 \<le> k" and "data t \<noteq> []"
  shows "get_closest_hospitals_idx c p k =
           Inr (nearest t (deg2rad p) (min (nat k) (length (data t))))"
  using assms(1) query_clamped [OF assms(2,3), of "deg2rad p"]
  by (simp add: get_closest_hospitals_idx_def Let_def)

lemma get_closest_hospitals_clamped:
  assumes "hospital_trees c = Some t" and "1 \<le> k" and "data t \<noteq> []"
    and "length (members c) = length (data t)"
  shows "get_closest_hospitals c p k =
           Inr (map (\<lambda>i. members c ! i) (nearest t (deg2rad p) (min (nat k) (length (data t)))))"
proof -
  have "list_all (\<lambda>i. i < length (members c)) (nearest t (deg2rad p) (min (nat k) (length (data t))))"
    using nearest_props(3) [of t "deg2rad p" "min (nat k) (length (data t))"] assms(4)
    by (auto simp add: list_all_iff)
  then show ?thesis
    using assms(1) query_clamped [OF assms(2,3), of "deg2rad p"]
    by (simp add: get_closest_hospitals_def Let_def)
qed

lemma great_circle_distance_member:
  assumes "map coordinates hs = map Some cs" and "data t = map deg2rad cs" and "i < length hs"
  shows "great_circle_distance p (hs ! i) = Some (haversine (deg2rad p) (data t ! i))"
proof -
  have len: "length cs = length hs"
    using assms(1) by (metis length_map)
  have "coordinates (hs ! i) = map coordinates hs ! i"
    using assms(3) by simp
  also have "\<dots> = Some (cs ! i)"
    using assms(1,3) len by simp
  finally show ?thesis
    using assms(2,3) len by (simp add: great_circle_distance_def)
qed

lemma Hospitals_init_two:
  "Hospitals_init
     [Hospital_init 10 2 None (Some (0, 0)) None, Hospital_init 5 1 None (Some (0, 90)) None]
     (Some 5) False True =
   Inr \<lparr>members =
          [Hospital_init 10 2 None (Some (0, 0)) None, Hospital_init 5 1 None (Some (0, 90)) None],
        box_mode = False, neighbour_hospitals = Some 5,
        hospital_trees = Some \<lparr>data = [deg2rad (0, 0), deg2rad (0, 90)]\<rparr>\<rparr>"
  by (simp add: Hospitals_init_def Hospital_init_def init_trees_def BallTree_init_def)

text \<open>
  C1: on a collection the constructor built with a spatial index, for every query
  point and every \<open>k \<ge> 1\<close>, \<open>get_closest_hospitals\<close> returns (it does not fail, also
  when \<open>k\<close> exceeds the number \<open>N\<close> of members) a list of \<open>min k N\<close> member
  hospitals whose great-circle distances from the query point are non-decreasing; when
  \<open>k \<ge> N\<close> the list holds every member exactly once.
\<close>

theorem get_closest_hospitals_sorted:
  assumes init: "Hospitals_init hs nh bm bt = Inr c"
    and tree: "hospital_trees c \<noteq> None"
    and k: "1 \<le> k"
  shows "\<exists>res ds. get_closest_hospitals c p k = Inr res
           \<and> length res = min (nat k) (length (members c))
           \<and> set res \<subseteq> set (members c)
           \<and> map (great_circle_distance p) res = map Some ds
           \<and> sorted ds
           \<and> (int (length (members c)) \<le> k \<longrightarrow> mset res = mset (members c))"
proof -
  from tree obtain t where t: "hospital_trees c = Some t"
    by auto
  from Hospitals_init_tree [OF init t] obtain cs where
    ms: "members c = hs" and ne: "hs \<noteq> []"
    and cs: "map coordinates hs = map Some cs" and dt: "data t = map deg2rad cs"
    by auto
  have len: "length (data t) = length hs"
    using cs dt by (metis length_map)
  have ne': "data t \<noteq> []"
    using len ne by auto
  let ?nb = "nearest t (deg2rad p) (min (nat k) (length (data t)))"
  let ?res = "map (\<lambda>i. hs ! i) ?nb"
  let ?ds = "map (\<lambda>i. haversine (deg2rad p) (data t ! i)) ?nb"
  have in_range: "\<And>i. i \<in> set ?nb \<Longrightarrow> i < length hs"
    using nearest_props(3) [of t "deg2rad p" "min (nat k) (length (data t))"] len by auto
  have res: "get_closest_hospitals c p k = Inr ?res"
    using get_closest_hospitals_clamped [OF t k ne', of p] ms len by simp
  have l: "length ?res = min (nat k) (length hs)"
    using len by (simp add: nearest_props(1))
  have sub: "set ?res \<subseteq> set hs"
    using in_range by auto
  have d: "map (great_circle_distance p) ?res = map Some ?ds"
    using in_range great_circle_distance_member [OF cs dt, of _ p] by simp
  have s: "sorted ?ds"
    by (rule nearest_props(4))
  have a: "mset ?res = mset hs" if "int (length hs) \<le> k"
  proof -
    have "length (data t) \<le> min (nat k) (length (data t))"
      using that len by simp
    then show ?thesis
      by (rule nearest_all) (rule len [symmetric])
  qed
  show ?thesis
    using res l sub d s a ms by blast
qed

theorem get_closest_hospitals_sorted_witness:
  "\<exists>c. Hospitals_init
         [Hospital_init 10 2 None (Some (0, 0)) None, Hospital_init 5 1 None (Some (0, 90)) None]
         (Some 5) False True = Inr c
     \<and> hospital_trees c \<noteq> None
     \<and> (\<exists>res ds. get_closest_hospitals c (0, 0) 5 = Inr res
           \<and> length res = 2
           \<and> map (great_circle_distance (0, 0)) res = map Some ds
           \<and> sorted ds
           \<and> mset res = mset (members c))"
proof -
  let ?c = "\<lparr>members =
          [Hospital_init 10 2 None (Some (0, 0)) None, Hospital_init 5 1 None (Some (0, 90)) None],
        box_mode = False, neighbour_hospitals = Some 5,
        hospital_trees = Some \<lparr>data = [deg2rad (0, 0), deg2rad (0, 90)]\<rparr>\<rparr>"
  have tree: "hospital_trees ?c \<noteq> None"
    by simp
  have k: "(1::int) \<le> 5"
    by simp
  show ?thesis
    using get_closest_hospitals_sorted [OF Hospitals_init_two tree k, of "(0, 0)"]
      Hospitals_init_two
    by auto
qed

text \<open>
  C6: on a collection the constructor built with a spatial index, the tree holds one
  point per member, in the members' order (the member's coordinates in radians), and
  for every query point and every \<open>k\<close> the two queries agree: when
  \<open>get_closest_hospitals_idx\<close> fails, \<open>get_closest_hospitals\<close> fails with the same
  error; when it returns positions, they are distinct positions of the member list
  and \<open>get_closest_hospitals\<close> returns the members at exactly these positions, in
  the same order.
\<close>

theorem index_positions_are_members:
  assumes init: "Hospitals_init hs nh bm bt = Inr c"
    and tree: "hospital_trees c = Some t"
  shows "length (data t) = length (members c)
     \<and> map (\<lambda>h. map_option deg2rad (coordinates h)) (members c) = map Some (data t)
     \<and> (case get_closest_hospitals_idx c p k of
          Inl e \<Rightarrow> get_closest_hospitals c p k = Inl e
        | Inr idx \<Rightarrow>
            get_closest_hospitals c p k = Inr (map (\<lambda>i. members c ! i) idx)
            \<and> distinct idx
            \<and> list_all (\<lambda>i. i < length (members c)) idx)"
proof -
  from Hospitals_init_tree [OF init tree] obtain cs where
    ms: "members c = hs" and ne: "hs \<noteq> []"
    and cs: "map coordinates hs = map Some cs" and dt: "data t = map deg2rad cs"
    by auto
  have len: "length (data t) = length (members c)"
    using cs dt ms by (metis length_map)
  have "map (map_option deg2rad) (map coordinates hs) = map Some (data t)"
    using cs dt by simp
  then have pos: "map (\<lambda>h. map_option deg2rad (coordinates h)) (members c) = map Some (data t)"
    using ms by (simp add: comp_def)
  have rel: "case get_closest_hospitals_idx c p k of
          Inl e \<Rightarrow> get_closest_hospitals c p k = Inl e
        | Inr idx \<Rightarrow>
            get_closest_hospitals c p k = Inr (map (\<lambda>i. members c ! i) idx)
            \<and> distinct idx
            \<and> list_all (\<lambda>i. i < length (members c)) idx"
  proof (cases "query t (deg2rad p) (min k (int (length (data t))))")
    case (Inl e)
    then show ?thesis
      using tree by (simp add: get_closest_hospitals_idx_def get_closest_hospitals_def Let_def)
  next
    case (Inr r)
    obtain ds nb where r: "r = (ds, nb)"
      by (cases r)
    have nb: "nb = nearest t (deg2rad p) (nat (min k (int (length (data t)))))"
      using Inr r by (simp add: query_result)
    have "distinct nb" and "set nb \<subseteq> {..<length (data t)}"
      unfolding nb by (rule nearest_props)+
    then have "distinct nb \<and> list_all (\<lambda>i. i < length (members c)) nb"
      using len by (auto simp add: list_all_iff)
    then show ?thesis
      using tree Inr r
      by (simp add: get_closest_hospitals_idx_def get_closest_hospitals_def Let_def)
  qed
  show ?thesis
    using len pos rel by simp
qed

theorem index_positions_are_members_witness:
  "\<exists>c t. Hospitals_init
         [Hospital_init 10 2 None (Some (0, 0)) None, Hospital_init 5 1 None (Some (0, 90)) None]
         (Some 5) False True = Inr c
     \<and> hospital_trees c = Some t
     \<and> length (data t) = 2
     \<and> (\<exists>idx. get_closest_hospitals_idx c (0, 0) 1 = Inr idx
           \<and> get_closest_hospitals c (0, 0) 1 = Inr (map (\<lambda>i. members c ! i) idx)
           \<and> distinct idx
           \<and> list_all (\<lambda>i. i < length (members c)) idx)"
proof -
  let ?t = "\<lparr>data = [deg2rad (0, 0), deg2rad (0, 90)]\<rparr>"
  let ?c = "\<lparr>members =
          [Hospital_init 10 2 None (Some (0, 0)) None, Hospital_init 5 1 None (Some (0, 90)) None],
        box_mode = False, neighbour_hospitals = Some 5,
        hospital_trees = Some ?t\<rparr>"
  have tree: "hospital_trees ?c = Some ?t"
    by simp
  have idx: "get_closest_hospitals_idx ?c (0, 0) 1 = Inr (nearest ?t (deg2rad (0, 0)) 1)"
    using get_closest_hospitals_idx_clamped [OF tree, of 1 "(0, 0)"] by simp
  show ?thesis
    using index_positions_are_members [OF Hospitals_init_two tree, of "(0, 0)" 1]
      Hospitals_init_two idx
    by auto
qed

text \<open>
  C8: a collection built without a spatial index (spatial indexing disabled, an empty
  member list, or box mode) fails every call of \<open>get_closest_hospitals\<close> and of
  \<open>get_closest_hospitals_idx\<close> with \<open>AttributeError\<close>; neither returns a list.
\<close>

theorem no_index_query_fails:
  assumes "\<not> bt \<or> hs = []"
  shows "(\<exists>c. Hospitals_init hs nh bm bt = Inr c
            \<and> hospital_trees c = None
            \<and> get_closest_hospitals c p k = Inl AttributeError
            \<and> get_closest_hospitals_idx c p k = Inl AttributeError)
       \<and> (\<exists>b. for_box_mode = Inr b
            \<and> hospital_trees b = None
            \<and> get_closest_hospitals b p k = Inl AttributeError
            \<and> get_closest_hospitals_idx b p k = Inl AttributeError)"
  using assms
  by (simp add: Hospitals_init_without_tree for_box_mode_def get_closest_hospitals_def
      get_closest_hospitals_idx_def)

theorem no_index_query_fails_witness:
  "(\<exists>c. Hospitals_init [Hospital_init 10 2 None (Some (0, 0)) None] (Some 5) False False = Inr c
       \<and> get_closest_hospitals c (0, 0) 1 = Inl AttributeError
       \<and> get_closest_hospitals_idx c (0, 0) 1 = Inl AttributeError)
   \<and> (\<exists>c. Hospitals_init [] (Some 5) False True = Inr c
       \<and> get_closest_hospitals c (0, 0) 1 = Inl AttributeError
       \<and> get_closest_hospitals_idx c (0, 0) 1 = Inl AttributeError)
   \<and> (\<exists>b. for_box_mode = Inr b
       \<and> get_closest_hospitals b (0, 0) 1 = Inl AttributeError
       \<and> get_closest_hospitals_idx b (0, 0) 1 = Inl AttributeError)"
  using no_index_query_fails [of False "[Hospital_init 10 2 None (Some (0, 0)) None]"
      "Some 5" False "(0, 0)" 1]
    no_index_query_fails [of True "[]" "Some 5" False "(0, 0)" 1]
  by auto

subsection \<open>The admission policy\<close>

lemma find_first:
  "find P xs = Some x \<Longrightarrow>
     \<exists>pre post. xs = pre @ x # post \<and> list_all (\<lambda>y. \<not> P y) pre \<and> P x"
proof (induction xs)
  case Nil
  then show ?case by simp
next
  case (Cons a xs)
  show ?case
  proof (cases "P a")
    case True
    then have "x = a"
      using Cons.prems by simp
    then have "a # xs = [] @ x # xs \<and> list_all (\<lambda>y. \<not> P y) [] \<and> P x"
      using True by simp
    then show ?thesis by blast
  next
    case False
    then have "find P xs = Some x"
      using Cons.prems by simp
    from Cons.IH [OF this] obtain pre post where
      "xs = pre @ x # post" "list_all (\<lambda>y. \<not> P y) pre" "P x"
      by blast
    then have "a # xs = (a # pre) @ x # post \<and> list_all (\<lambda>y. \<not> P y) (a # pre) \<and> P x"
      using False by simp
    then show ?thesis by blast
  qed
qed

lemma find_none: "find P xs = None \<Longrightarrow> list_all (\<lambda>y. \<not> P y) xs"
  by (simp add: find_None_iff list_all_iff)

lemma threshold_reached_bool:
  assumes "length (subgroups h) = 3"
  shows "threshold_reached person h = Inr True \<or> threshold_reached person h = Inr False"
  using Group_getitem_3 [OF assms]
  by (simp add: threshold_reached_def full_def full_ICU_def SubgroupType_patients_def
      SubgroupType_icu_patients_def)

lemma add_as_patient_placed:
  assumes "length (subgroups h) = 3"
    and "tag (infection person) = hospitalised \<or> tag (infection person) = intensive_care"
  shows "\<exists>h' person' s. add_as_patient h person = (None, h', person')
           \<and> Group_getitem h'
                (if tag (infection person) = intensive_care
                 then SubgroupType_icu_patients else SubgroupType_patients) = Inr s
           \<and> person_id person \<in> set (people s)"
proof (cases "tag (infection person) = intensive_care")
  case True
  then show ?thesis
    using assms(1)
    by (simp add: add_as_patient_def add_icu_patients)
      (simp add: Group_getitem_def list_index_3 SubgroupType_icu_patients_def
        subgroup_append_def)
next
  case False
  then have "tag (infection person) = hospitalised"
    using assms(2) by simp
  then show ?thesis
    using assms(1)
    by (simp add: add_as_patient_def add_patients)
      (simp add: Group_getitem_def list_index_3 SubgroupType_patients_def
        subgroup_append_def)
qed

lemma nearest_is_nearest:
  assumes "j < length (data t)" and "j \<notin> set (nearest t x n)" and "i \<in> set (nearest t x n)"
  shows "haversine x (data t ! i) \<le> haversine x (data t ! j)"
proof -
  let ?f = "\<lambda>i. haversine x (data t ! i)"
  let ?xs = "sort_key ?f [0..<length (data t)]"
  have "j \<in> set ?xs"
    using assms(1) by simp
  then have "j \<in> set (take n ?xs) \<union> set (drop n ?xs)"
    by (metis append_take_drop_id set_append)
  then have j: "j \<in> set (drop n ?xs)"
    using assms(2) by (simp add: nearest_def)
  have i: "i \<in> set (take n ?xs)"
    using assms(3) by (simp add: nearest_def)
  have "sorted (map ?f (take n ?xs @ drop n ?xs))"
    by simp
  then have "\<forall>a\<in>set (map ?f (take n ?xs)). \<forall>b\<in>set (map ?f (drop n ?xs)). a \<le> b"
    unfolding map_append sorted_append by blast
  then show ?thesis
    using i j by simp
qed

lemma haversine_same: "haversine x x = 0"
  by (simp add: haversine_def)

lemma haversine_quarter: "haversine (deg2rad (0, 0)) (deg2rad (0, 90)) = pi / 2"
proof -
  have "sqrt ((sin (pi / 4))\<^sup>2) = sin (pi / 4)"
    by (simp add: sin_45)
  moreover have "arcsin (sin (pi / 4)) = pi / 4"
    by (rule arcsin_sin) simp_all
  ultimately show ?thesis
    by (simp add: haversine_def deg2rad_def)
qed

lemma nearest_two:
  "nearest \<lparr>data = [deg2rad (0, 0), deg2rad (0, 90)]\<rparr> (deg2rad (0, 0)) 2 = [0, 1]"
proof -
  have "[0..<2] = [0, 1]"
    by (simp add: upt_rec)
  then show ?thesis
    by (simp add: nearest_def haversine_same haversine_quarter)
qed

lemma Hospitals_init_pair:
  "Hospitals_init
     [Hospital_init b1 i1 None (Some (0, 0)) None, Hospital_init b2 i2 None (Some (0, 90)) None]
     (Some 2) False True =
   Inr \<lparr>members =
          [Hospital_init b1 i1 None (Some (0, 0)) None,
           Hospital_init b2 i2 None (Some (0, 90)) None],
        box_mode = False, neighbour_hospitals = Some 2,
        hospital_trees = Some \<lparr>data = [deg2rad (0, 0), deg2rad (0, 90)]\<rparr>\<rparr>"
  by (simp add: Hospitals_init_def Hospital_init_def init_trees_def BallTree_init_def)

lemma candidates_pair:
  assumes "hospital_trees c = Some \<lparr>data = [deg2rad (0, 0), deg2rad (0, 90)]\<rparr>"
  shows "get_closest_hospitals_idx c (0, 0) 2 = Inr [0, 1]"
proof -
  have "nearest \<lparr>data = [deg2rad (0, 0), deg2rad (0, 90)]\<rparr> (deg2rad (0, 0)) (Suc (Suc 0))
          = [0, Suc 0]"
    using nearest_two by (simp add: numeral_2_eq_2)
  then show ?thesis
    using get_closest_hospitals_idx_clamped [OF assms, of 2 "(0, 0)"] by simp
qed

lemma thresholds_fresh:
  "full (Hospital_init b i a c t) = Inr (b \<le> 0)"
  "full_ICU (Hospital_init b i a c t) = Inr (i \<le> 0)"
  using Group_getitem_3 [OF Hospital_init_subgroups, of b i a c t]
  by (simp_all add: full_def full_ICU_def subgroup_size_def SubgroupType_patients_def
      SubgroupType_icu_patients_def Hospital_init_def Group_init_subgroups_def)

lemma first_of_two:
  assumes "[a, b] = pre @ i # post"
  shows "(pre = [] \<and> i = a) \<or> (pre = [a] \<and> i = b)"
  using assms by (auto simp add: Cons_eq_append_conv)

text \<open>
  C4: for a person classified \<open>hospitalised\<close> or \<open>intensive_care\<close>, on a collection
  built with a spatial index and \<open>neighbour_hospitals = k \<ge> 1\<close>, the admission
  policy considers \<open>min k N\<close> distinct member hospitals in ascending great-circle
  distance from the person's location, and they are the nearest ones: every member
  that is not a candidate is at least as far as every candidate. The person is always
  placed, and in one of the candidates. For a person classified \<open>hospitalised\<close> it is
  the first candidate whose \<open>full\<close> is false (\<open>full\<close> is true of every candidate
  before it) or, when \<open>full\<close> is true of all candidates, the candidate at the drawn
  position; for a person classified \<open>intensive_care\<close> the same holds with
  \<open>full_ICU\<close>. The candidates being distinct, each of them is chosen by exactly one
  drawn position. After the call the person is in the \<open>patients\<close> or the
  \<open>icu_patients\<close> subgroup of the chosen hospital, and no other member has changed.
\<close>

theorem admission_always_places:
  assumes init: "Hospitals_init hs (Some k) bm bt = Inr c"
    and tree: "hospital_trees c \<noteq> None"
    and wf: "list_all (\<lambda>h. length (subgroups h) = 3) hs"
    and k: "1 \<le> k"
    and sev: "tag (infection person) = hospitalised \<or> tag (infection person) = intensive_care"
    and draw: "draw < min (nat k) (length hs)"
  shows "\<exists>candidates ds i c' person' s.
      get_closest_hospitals_idx c location k = Inr candidates
    \<and> length candidates = min (nat k) (length hs)
    \<and> distinct candidates
    \<and> list_all (\<lambda>j. j < length hs) candidates
    \<and> map (\<lambda>j. great_circle_distance location (hs ! j)) candidates = map Some ds
    \<and> sorted ds
    \<and> (\<forall>j<length hs. j \<notin> set candidates \<longrightarrow>
          (\<exists>d. great_circle_distance location (hs ! j) = Some d \<and> list_all (\<lambda>d'. d' \<le> d) ds))
    \<and> admit c person location draw = Inr (i, c', person')
    \<and> i \<in> set candidates
    \<and> (tag (infection person) = hospitalised \<longrightarrow>
          ((\<exists>pre post. candidates = pre @ i # post
              \<and> list_all (\<lambda>j. full (hs ! j) = Inr True) pre
              \<and> full (hs ! i) = Inr False)
           \<or> (list_all (\<lambda>j. full (hs ! j) = Inr True) candidates
               \<and> i = candidates ! draw)))
    \<and> (tag (infection person) = intensive_care \<longrightarrow>
          ((\<exists>pre post. candidates = pre @ i # post
              \<and> list_all (\<lambda>j. full_ICU (hs ! j) = Inr True) pre
              \<and> full_ICU (hs ! i) = Inr False)
           \<or> (list_all (\<lambda>j. full_ICU (hs ! j) = Inr True) candidates
               \<and> i = candidates ! draw)))
    \<and> members c' = hs[i := members c' ! i]
    \<and> add_as_patient (hs ! i) person = (None, members c' ! i, person')
    \<and> Group_getitem (members c' ! i)
          (if tag (infection person) = intensive_care
           then SubgroupType_icu_patients else SubgroupType_patients) = Inr s
    \<and> person_id person \<in> set (people s)"
proof -
  from tree obtain t where t: "hospital_trees c = Some t"
    by auto
  from Hospitals_init_tree [OF init t] obtain cs where
    ms: "members c = hs" and ne: "hs \<noteq> []" and nh: "neighbour_hospitals c = Some k"
    and cs: "map coordinates hs = map Some cs" and dt: "data t = map deg2rad cs"
    by auto
  have len: "length (data t) = length hs"
    using cs dt by (metis length_map)
  have ne': "data t \<noteq> []"
    using len ne by auto
  define cands where "cands = nearest t (deg2rad location) (min (nat k) (length (data t)))"
  define ds where "ds = map (\<lambda>j. haversine (deg2rad location) (data t ! j)) cands"
  have idx: "get_closest_hospitals_idx c location k = Inr cands"
    unfolding cands_def by (rule get_closest_hospitals_idx_clamped [OF t k ne'])
  have lc: "length cands = min (nat k) (length hs)"
    using len by (simp add: cands_def nearest_props(1))
  have dc: "distinct cands"
    unfolding cands_def by (rule nearest_props(2))
  have in_range: "j < length hs" if "j \<in> set cands" for j
    using that nearest_props(3) [of t "deg2rad location" "min (nat k) (length (data t))"] len
    by (auto simp add: cands_def)
  have rng: "list_all (\<lambda>j. j < length hs) cands"
    using in_range by (simp add: list_all_iff)
  have dist: "map (\<lambda>j. great_circle_distance location (hs ! j)) cands = map Some ds"
    using in_range great_circle_distance_member [OF cs dt, of _ location]
    by (simp add: ds_def)
  have srt: "sorted ds"
    unfolding ds_def cands_def by (rule nearest_props(4))
  have near: "\<forall>j<length hs. j \<notin> set cands \<longrightarrow>
          (\<exists>d. great_circle_distance location (hs ! j) = Some d \<and> list_all (\<lambda>d'. d' \<le> d) ds)"
  proof (intro allI impI)
    fix j
    assume j: "j < length hs" and out: "j \<notin> set cands"
    have "great_circle_distance location (hs ! j) =
            Some (haversine (deg2rad location) (data t ! j))"
      by (rule great_circle_distance_member [OF cs dt j])
    moreover have "list_all (\<lambda>d'. d' \<le> haversine (deg2rad location) (data t ! j)) ds"
      unfolding ds_def list_all_iff
    proof
      fix d'
      assume "d' \<in> set (map (\<lambda>j. haversine (deg2rad location) (data t ! j)) cands)"
      then obtain i where i: "i \<in> set cands"
        and d': "d' = haversine (deg2rad location) (data t ! i)"
        by auto
      show "d' \<le> haversine (deg2rad location) (data t ! j)"
        unfolding d'
        using j len out i nearest_is_nearest [of j t "deg2rad location" _ i]
        by (simp add: cands_def)
    qed
    ultimately show "\<exists>d. great_circle_distance location (hs ! j) = Some d
        \<and> list_all (\<lambda>d'. d' \<le> d) ds"
      by blast
  qed
  have sub3: "length (subgroups (hs ! j)) = 3" if "j \<in> set cands" for j
    using wf in_range [OF that] by (simp add: list_all_length)
  let ?P = "\<lambda>j. threshold_reached person (hs ! j) = Inr False"
  have full_of: "threshold_reached person (hs ! j) = Inr True"
    if "j \<in> set cands" "\<not> ?P j" for j
    using threshold_reached_bool [OF sub3 [OF that(1)], of person] that(2) by blast
  obtain i where ch: "choose_hospital hs person cands draw = Inr i"
    and i_in: "i \<in> set cands"
    and how: "(\<exists>pre post. cands = pre @ i # post
            \<and> list_all (\<lambda>j. threshold_reached person (hs ! j) = Inr True) pre
            \<and> threshold_reached person (hs ! i) = Inr False)
        \<or> (list_all (\<lambda>j. threshold_reached person (hs ! j) = Inr True) cands
            \<and> i = cands ! draw)"
  proof (cases "find ?P cands")
    case None
    have "list_all (\<lambda>j. \<not> ?P j) cands"
      using None by (rule find_none)
    then have all: "list_all (\<lambda>j. threshold_reached person (hs ! j) = Inr True) cands"
      using full_of by (auto simp add: list_all_iff)
    have d: "draw < length cands"
      using draw lc by simp
    have "choose_hospital hs person cands draw = Inr (cands ! draw)"
      using None d by (simp add: choose_hospital_def)
    moreover have "cands ! draw \<in> set cands"
      using d by simp
    ultimately show ?thesis
      using all that by blast
  next
    case (Some i)
    from find_first [OF Some] obtain pre post where
      split: "cands = pre @ i # post" and pre: "list_all (\<lambda>j. \<not> ?P j) pre" and free: "?P i"
      by blast
    have "set pre \<subseteq> set cands"
      using split by auto
    then have "list_all (\<lambda>j. threshold_reached person (hs ! j) = Inr True) pre"
      using pre full_of by (auto simp add: list_all_iff)
    moreover have "choose_hospital hs person cands draw = Inr i"
      using Some by (simp add: choose_hospital_def)
    moreover have "i \<in> set cands"
      using split by simp
    ultimately show ?thesis
      using split free that by blast
  qed
  have ward: "(\<exists>pre post. cands = pre @ i # post
              \<and> list_all (\<lambda>j. full (hs ! j) = Inr True) pre
              \<and> full (hs ! i) = Inr False)
           \<or> (list_all (\<lambda>j. full (hs ! j) = Inr True) cands \<and> i = cands ! draw)"
    if "tag (infection person) = hospitalised"
    using how that by (simp add: threshold_reached_def)
  have icu: "(\<exists>pre post. cands = pre @ i # post
              \<and> list_all (\<lambda>j. full_ICU (hs ! j) = Inr True) pre
              \<and> full_ICU (hs ! i) = Inr False)
           \<or> (list_all (\<lambda>j. full_ICU (hs ! j) = Inr True) cands \<and> i = cands ! draw)"
    if "tag (infection person) = intensive_care"
    using how that by (simp add: threshold_reached_def)
  from add_as_patient_placed [OF sub3 [OF i_in] sev] obtain h' person' s where
    ap: "add_as_patient (hs ! i) person = (None, h', person')"
    and gi: "Group_getitem h'
                (if tag (infection person) = intensive_care
                 then SubgroupType_icu_patients else SubgroupType_patients) = Inr s"
    and pl: "person_id person \<in> set (people s)"
    by blast
  define c' where "c' = c\<lparr>members := hs[i := h']\<rparr>"
  have adm: "admit c person location draw = Inr (i, c', person')"
    using nh idx ch ap ms by (simp add: admit_def c'_def)
  have mi: "members c' ! i = h'"
    using in_range [OF i_in] by (simp add: c'_def)
  have mc: "members c' = hs[i := members c' ! i]"
    using mi by (simp add: c'_def)
  have ap': "add_as_patient (hs ! i) person = (None, members c' ! i, person')"
    using ap mi by simp
  have gi': "Group_getitem (members c' ! i)
                (if tag (infection person) = intensive_care
                 then SubgroupType_icu_patients else SubgroupType_patients) = Inr s"
    using gi mi by simp
  have ward': "tag (infection person) = hospitalised \<longrightarrow>
          ((\<exists>pre post. cands = pre @ i # post
              \<and> list_all (\<lambda>j. full (hs ! j) = Inr True) pre
              \<and> full (hs ! i) = Inr False)
           \<or> (list_all (\<lambda>j. full (hs ! j) = Inr True) cands \<and> i = cands ! draw))"
    using ward by (rule impI)
  have icu': "tag (infection person) = intensive_care \<longrightarrow>
          ((\<exists>pre post. cands = pre @ i # post
              \<and> list_all (\<lambda>j. full_ICU (hs ! j) = Inr True) pre
              \<and> full_ICU (hs ! i) = Inr False)
           \<or> (list_all (\<lambda>j. full_ICU (hs ! j) = Inr True) cands \<and> i = cands ! draw))"
    using icu by (rule impI)
  from idx lc dc rng dist srt near adm i_in ward' icu' mc ap' gi' pl
  show ?thesis
    by (intro exI conjI)
qed

theorem admission_always_places_witness:
  "(\<exists>c c' person'.
      Hospitals_init
        [Hospital_init 5 0 None (Some (0, 0)) None, Hospital_init 0 1 None (Some (0, 90)) None]
        (Some 2) False True = Inr c
      \<and> get_closest_hospitals_idx c (0, 0) 2 = Inr [0, 1]
      \<and> full (Hospital_init 5 0 None (Some (0, 0)) None) = Inr False
      \<and> admit c \<lparr>person_id = 7, infection = \<lparr>tag = hospitalised\<rparr>,
                   activity_slots = Map.empty\<rparr> (0, 0) 1 = Inr (0, c', person'))
   \<and> (\<exists>c c' person'.
      Hospitals_init
        [Hospital_init 5 0 None (Some (0, 0)) None, Hospital_init 0 1 None (Some (0, 90)) None]
        (Some 2) False True = Inr c
      \<and> get_closest_hospitals_idx c (0, 0) 2 = Inr [0, 1]
      \<and> full_ICU (Hospital_init 5 0 None (Some (0, 0)) None) = Inr True
      \<and> full_ICU (Hospital_init 0 1 None (Some (0, 90)) None) = Inr False
      \<and> admit c \<lparr>person_id = 8, infection = \<lparr>tag = intensive_care\<rparr>,
                   activity_slots = Map.empty\<rparr> (0, 0) 0 = Inr (1, c', person'))
   \<and> (\<exists>c c' person'.
      Hospitals_init
        [Hospital_init 0 0 None (Some (0, 0)) None, Hospital_init 0 0 None (Some (0, 90)) None]
        (Some 2) False True = Inr c
      \<and> get_closest_hospitals_idx c (0, 0) 2 = Inr [0, 1]
      \<and> full (Hospital_init 0 0 None (Some (0, 0)) None) = Inr True
      \<and> full (Hospital_init 0 0 None (Some (0, 90)) None) = Inr True
      \<and> admit c \<lparr>person_id = 9, infection = \<lparr>tag = hospitalised\<rparr>,
                   activity_slots = Map.empty\<rparr> (0, 0) 1 = Inr (1, c', person'))"
proof (intro conjI)
  let ?t = "\<lparr>data = [deg2rad (0, 0), deg2rad (0, 90)]\<rparr>"
  let ?A = "Hospital_init 5 0 None (Some (0, 0)) None"
  let ?B = "Hospital_init 0 1 None (Some (0, 90)) None"
  let ?F = "Hospital_init 0 0 None (Some (0, 0)) None"
  let ?G = "Hospital_init 0 0 None (Some (0, 90)) None"
  let ?c = "\<lparr>members = [?A, ?B], box_mode = False, neighbour_hospitals = Some 2,
             hospital_trees = Some ?t\<rparr>"
  let ?d = "\<lparr>members = [?F, ?G], box_mode = False, neighbour_hospitals = Some 2,
             hospital_trees = Some ?t\<rparr>"
  let ?ward = "\<lparr>person_id = 7, infection = \<lparr>tag = hospitalised\<rparr>,
                 activity_slots = Map.empty\<rparr>"
  let ?icu = "\<lparr>person_id = 8, infection = \<lparr>tag = intensive_care\<rparr>,
                activity_slots = Map.empty\<rparr>"
  let ?over = "\<lparr>person_id = 9, infection = \<lparr>tag = hospitalised\<rparr>,
                 activity_slots = Map.empty\<rparr>"
  have tree_c: "hospital_trees ?c \<noteq> None" and tree_d: "hospital_trees ?d \<noteq> None"
    by simp_all
  have wf_c: "list_all (\<lambda>h. length (subgroups h) = 3) [?A, ?B]"
    and wf_d: "list_all (\<lambda>h. length (subgroups h) = 3) [?F, ?G]"
    by (simp_all add: Hospital_init_subgroups)
  have k: "(1::int) \<le> 2"
    by simp
  have cand_c: "get_closest_hospitals_idx ?c (0, 0) 2 = Inr [0, 1]"
    and cand_d: "get_closest_hospitals_idx ?d (0, 0) 2 = Inr [0, 1]"
    by (rule candidates_pair, simp)+

  show "\<exists>c c' person'.
      Hospitals_init [?A, ?B] (Some 2) False True = Inr c
      \<and> get_closest_hospitals_idx c (0, 0) 2 = Inr [0, 1]
      \<and> full ?A = Inr False
      \<and> admit c ?ward (0, 0) 1 = Inr (0, c', person')"
  proof -
    have sev: "tag (infection ?ward) = hospitalised \<or> tag (infection ?ward) = intensive_care"
      by simp
    have draw: "(1::nat) < min (nat 2) (length [?A, ?B])"
      by simp
    from admission_always_places [OF Hospitals_init_pair tree_c wf_c k sev draw, of "(0, 0)"]
    obtain candidates i c' person' where
      cand: "get_closest_hospitals_idx ?c (0, 0) 2 = Inr candidates"
      and adm: "admit ?c ?ward (0, 0) 1 = Inr (i, c', person')"
      and how: "(\<exists>pre post. candidates = pre @ i # post
              \<and> list_all (\<lambda>j. full ([?A, ?B] ! j) = Inr True) pre
              \<and> full ([?A, ?B] ! i) = Inr False)
           \<or> (list_all (\<lambda>j. full ([?A, ?B] ! j) = Inr True) candidates
               \<and> i = candidates ! 1)"
      by (elim exE conjE) simp
    have c01: "candidates = [0, 1]"
      using cand cand_c by simp
    have "i = 0"
      using how unfolding c01
      by (auto simp add: thresholds_fresh dest!: first_of_two)
    then show ?thesis
      using adm cand_c Hospitals_init_pair [of 5 0 0 1] by (auto simp add: thresholds_fresh)
  qed

  show "\<exists>c c' person'.
      Hospitals_init [?A, ?B] (Some 2) False True = Inr c
      \<and> get_closest_hospitals_idx c (0, 0) 2 = Inr [0, 1]
      \<and> full_ICU ?A = Inr True
      \<and> full_ICU ?B = Inr False
      \<and> admit c ?icu (0, 0) 0 = Inr (1, c', person')"
  proof -
    have sev: "tag (infection ?icu) = hospitalised \<or> tag (infection ?icu) = intensive_care"
      by simp
    have draw: "(0::nat) < min (nat 2) (length [?A, ?B])"
      by simp
    from admission_always_places [OF Hospitals_init_pair tree_c wf_c k sev draw, of "(0, 0)"]
    obtain candidates i c' person' where
      cand: "get_closest_hospitals_idx ?c (0, 0) 2 = Inr candidates"
      and adm: "admit ?c ?icu (0, 0) 0 = Inr (i, c', person')"
      and how: "(\<exists>pre post. candidates = pre @ i # post
              \<and> list_all (\<lambda>j. full_ICU ([?A, ?B] ! j) = Inr True) pre
              \<and> full_ICU ([?A, ?B] ! i) = Inr False)
           \<or> (list_all (\<lambda>j. full_ICU ([?A, ?B] ! j) = Inr True) candidates
               \<and> i = candidates ! 0)"
      by (elim exE conjE) simp
    have c01: "candidates = [0, 1]"
      using cand cand_c by simp
    have "i = 1"
      using how unfolding c01
      by (auto simp add: thresholds_fresh dest!: first_of_two)
    then show ?thesis
      using adm cand_c Hospitals_init_pair [of 5 0 0 1] by (auto simp add: thresholds_fresh)
  qed

  show "\<exists>c c' person'.
      Hospitals_init [?F, ?G] (Some 2) False True = Inr c
      \<and> get_closest_hospitals_idx c (0, 0) 2 = Inr [0, 1]
      \<and> full ?F = Inr True
      \<and> full ?G = Inr True
      \<and> admit c ?over (0, 0) 1 = Inr (1, c', person')"
  proof -
    have sev: "tag (infection ?over) = hospitalised \<or> tag (infection ?over) = intensive_care"
      by simp
    have draw: "(1::nat) < min (nat 2) (length [?F, ?G])"
      by simp
    from admission_always_places [OF Hospitals_init_pair tree_d wf_d k sev draw, of "(0, 0)"]
    obtain candidates i c' person' where
      cand: "get_closest_hospitals_idx ?d (0, 0) 2 = Inr candidates"
      and adm: "admit ?d ?over (0, 0) 1 = Inr (i, c', person')"
      and how: "(\<exists>pre post. candidates = pre @ i # post
              \<and> list_all (\<lambda>j. full ([?F, ?G] ! j) = Inr True) pre
              \<and> full ([?F, ?G] ! i) = Inr False)
           \<or> (list_all (\<lambda>j. full ([?F, ?G] ! j) = Inr True) candidates
               \<and> i = candidates ! 1)"
      by (elim exE conjE) simp
    have c01: "candidates = [0, 1]"
      using cand cand_d by simp
    have "i = 1"
      using how unfolding c01
      by (auto simp add: thresholds_fresh dest!: first_of_two)
    then show ?thesis
      using adm cand_d Hospitals_init_pair [of 0 0 0 0] by (auto simp add: thresholds_fresh)
  qed
qed

end
